theory Spec2Isabelle
  imports Main "HOL-Library.Sublist"
begin

section \<open>JavaScript values the templates rely on\<close>

text \<open>
  The templates read properties of plain object literals with \<^verbatim>\<open>obj[key]\<close> and test the
  result for truthiness (\<^verbatim>\<open>map[status] || "Unknown"\<close>, \<^verbatim>\<open>!this.themes[themeName]\<close>).
  A property read on an object literal looks at the object's own properties first and then at
  its prototype, which for a literal is \<^verbatim>\<open>Object.prototype\<close>. The names below are the
  properties of \<^verbatim>\<open>Object.prototype\<close> (ECMAScript, including Annex B); each of them is a
  function or an object, hence truthy.
\<close>

definition Object_prototype_keys :: "string list" where
  "Object_prototype_keys =
     [''constructor'', ''hasOwnProperty'', ''isPrototypeOf'', ''propertyIsEnumerable'',
      ''toLocaleString'', ''toString'', ''valueOf'', ''__proto__'',
      ''__defineGetter__'', ''__defineSetter__'', ''__lookupGetter__'', ''__lookupSetter__'']"

text \<open>The result of \<^verbatim>\<open>obj[key]\<close>: an own value, a member inherited from the prototype, or
  \<^verbatim>\<open>undefined\<close>; and, for an object behind a reactive proxy, a flag the proxy answers
  itself or the proxy's raw target.\<close>

datatype 'v property = Own 'v | Inherited string | Flag bool | Raw_target | Undefined

definition js_get :: "(string \<rightharpoonup> 'v) \<Rightarrow> string \<Rightarrow> 'v property" where
  "js_get obj key =
     (case obj key of
        Some v \<Rightarrow> Own v
      | None \<Rightarrow> if key \<in> set Object_prototype_keys then Inherited key else Undefined)"

text \<open>Truthiness of a property read; \<open>tv\<close> says which own values are truthy (every object is,
  a string is unless it is empty).\<close>

fun truthy :: "('v \<Rightarrow> bool) \<Rightarrow> 'v property \<Rightarrow> bool" where
  "truthy tv (Own v) = tv v"
| "truthy tv (Inherited k) = True"
| "truthy tv (Flag b) = b"
| "truthy tv Raw_target = True"
| "truthy tv Undefined = False"

definition truthy_string :: "'c list \<Rightarrow> bool" where
  "truthy_string s = (s \<noteq> [])"

text \<open>
  The state of a Pinia store is wrapped in Vue's reactive proxy, nested objects included, so
  \<^verbatim>\<open>this.themes[key]\<close> and \<^verbatim>\<open>state.themes[key]\<close> go through the proxy's \<^verbatim>\<open>get\<close> trap. The
  trap answers its own flags before it looks at the object: \<^verbatim>\<open>__v_isReactive\<close> is true,
  \<^verbatim>\<open>__v_isReadonly\<close> and \<^verbatim>\<open>__v_isShallow\<close> are false, and \<^verbatim>\<open>__v_raw\<close> is the raw object.
  Every other key is read from the object as above.
\<close>

definition reactive_keys :: "string list" where
  "reactive_keys = [''__v_isReactive'', ''__v_isReadonly'', ''__v_isShallow'', ''__v_raw'']"

definition reactive_get :: "(string \<rightharpoonup> 'v) \<Rightarrow> string \<Rightarrow> 'v property" where
  "reactive_get obj key =
     (if key = ''__v_isReactive'' then Flag True
      else if key = ''__v_isReadonly'' then Flag False
      else if key = ''__v_isShallow'' then Flag False
      else if key = ''__v_raw'' then Raw_target
      else js_get obj key)"

text \<open>
  A number used as a property key is converted to its string (ECMAScript, Number::toString
  with radix 10). A number is NaN, a zero of either sign, an infinity of either sign, or
  finite and not zero. The conversion of a finite number works from its shortest decimal
  significand \<open>s\<close>, a positive integer that is no multiple of ten, with \<open>k\<close> digits, and
  the exponent \<open>n\<close> such that the number is \<open>s * 10 ^ (n - k)\<close>. A finite number other than
  zero is given here by just that: its sign (\<open>True\<close> for negative), the significand as
  \<open>10 * q + d\<close> with a last digit \<open>d\<close> from 1 to 9, and \<open>n\<close>. So 1 is
  \<open>Finite False 0 D1 1\<close>, 20 is \<open>Finite False 0 D2 2\<close>, 1.5 is \<open>Finite False 1 D5 1\<close>,
  0.5 is \<open>Finite False 0 D5 0\<close> and 1e21 is \<open>Finite False 0 D1 22\<close>.
\<close>

datatype last_digit = D1 | D2 | D3 | D4 | D5 | D6 | D7 | D8 | D9

fun last_digit_value :: "last_digit \<Rightarrow> nat" where
  "last_digit_value D1 = 1"
| "last_digit_value D2 = 2"
| "last_digit_value D3 = 3"
| "last_digit_value D4 = 4"
| "last_digit_value D5 = 5"
| "last_digit_value D6 = 6"
| "last_digit_value D7 = 7"
| "last_digit_value D8 = 8"
| "last_digit_value D9 = 9"

datatype number = NaN | Zero bool | Infinity bool | Finite bool nat last_digit int

fun is_zero :: "number \<Rightarrow> bool" where
  "is_zero (Zero negative) = True"
| "is_zero x = False"

definition one :: number where
  "one = Finite False 0 D1 1"

definition digit_char :: "nat \<Rightarrow> char" where
  "digit_char d = ''0123456789'' ! d"

fun digits :: "nat \<Rightarrow> string" where
  "digits n = (if n < 10 then [digit_char n] else digits (n div 10) @ [digit_char (n mod 10)])"

declare digits.simps [simp del]

text \<open>
  The string of a positive finite number with significand \<open>s\<close> and exponent \<open>n\<close>, in the
  order of the standard's steps: an integer below \<open>10 ^ 21\<close> (digits, then zeros), a decimal
  point inside the digits, a small fraction (\<^verbatim>\<open>0.\<close>, zeros, digits), and otherwise exponent
  notation with one digit or with several.
\<close>

definition finite_key :: "nat \<Rightarrow> int \<Rightarrow> string" where
  "finite_key s n =
     (let ds = digits s; k = int (length ds)
      in if k \<le> n \<and> n \<le> 21 then ds @ replicate (nat (n - k)) (CHR ''0'')
         else if 0 < n \<and> n \<le> 21 then take (nat n) ds @ ''.'' @ drop (nat n) ds
         else if - 6 < n \<and> n \<le> 0 then ''0.'' @ replicate (nat (- n)) (CHR ''0'') @ ds
         else (let e = n - 1;
                   sign = (if e < 0 then CHR ''-'' else CHR ''+'');
                   es = digits (nat \<bar>e\<bar>)
               in if k = 1 then ds @ ''e'' @ [sign] @ es
                  else take 1 ds @ ''.'' @ drop 1 ds @ ''e'' @ [sign] @ es))"

fun number_key :: "number \<Rightarrow> string" where
  "number_key NaN = ''NaN''"
| "number_key (Zero negative) = ''0''"
| "number_key (Infinity negative) = (if negative then ''-Infinity'' else ''Infinity'')"
| "number_key (Finite negative q d n) =
     (if negative then ''-'' else []) @ finite_key (10 * q + last_digit_value d) n"

section \<open>Status labels of the list page and the detail page\<close>

text \<open>
  \<^verbatim>\<open>
  const getStatusText = (status: number) => {
    const map = { 0: "Pending", 1: "Completed" };
    return map[status] || "Unknown";
  };
  const getStatusType = (status: number) => {
    const map = { 0: "warning", 1: "success" };
    return map[status] || "default";
  };
  \<close>
  The list page and the detail page each declare this pair, with the same text.
\<close>

definition js_or :: "string property \<Rightarrow> string \<Rightarrow> string property" where
  "js_or v d = (if truthy truthy_string v then v else Own d)"

definition getStatusText :: "number \<Rightarrow> string property" where
  "getStatusText status =
     (let map = [''0'' \<mapsto> ''Pending'', ''1'' \<mapsto> ''Completed'']
      in js_or (js_get map (number_key status)) ''Unknown'')"

definition getStatusType :: "number \<Rightarrow> string property" where
  "getStatusType status =
     (let map = [''0'' \<mapsto> ''warning'', ''1'' \<mapsto> ''success'']
      in js_or (js_get map (number_key status)) ''default'')"

definition detail_getStatusText :: "number \<Rightarrow> string property" where
  "detail_getStatusText status =
     (let map = [''0'' \<mapsto> ''Pending'', ''1'' \<mapsto> ''Completed'']
      in js_or (js_get map (number_key status)) ''Unknown'')"

definition detail_getStatusType :: "number \<Rightarrow> string property" where
  "detail_getStatusType status =
     (let map = [''0'' \<mapsto> ''warning'', ''1'' \<mapsto> ''success'']
      in js_or (js_get map (number_key status)) ''default'')"

section \<open>Objects and the placeholder item shape\<close>

text \<open>Values a template stores in an object, and an object as its list of own properties.\<close>

datatype js_val = VNumber int | VString string | VBoolean bool | VNull | VUndefined

type_synonym js_object = "(string \<times> js_val) list"

text \<open>
  An interface declaration, member by member, as the template writes it:
  \<^verbatim>\<open>
  interface Item {
    id: number;
    title: string;
    description?: string;
    [key: string]: any;
  }
  \<close>
\<close>

datatype ts_type = TNumber | TString | TAny

record member =
  member_name :: string
  member_type :: ts_type
  optional :: bool

record interface =
  members :: "member list"
  index_signature :: "ts_type option"

definition Item :: interface where
  "Item =
     \<lparr>members =
        [\<lparr>member_name = ''id'', member_type = TNumber, optional = False\<rparr>,
         \<lparr>member_name = ''title'', member_type = TString, optional = False\<rparr>,
         \<lparr>member_name = ''description'', member_type = TString, optional = True\<rparr>],
      index_signature = Some TAny\<rparr>"

fun has_type :: "ts_type \<Rightarrow> js_val \<Rightarrow> bool" where
  "has_type TNumber (VNumber n) = True"
| "has_type TString (VString s) = True"
| "has_type TAny v = True"
| "has_type t v = False"

definition required_members :: "interface \<Rightarrow> member list" where
  "required_members i = filter (\<lambda>m. \<not> optional m) (members i)"

definition declared :: "interface \<Rightarrow> string \<Rightarrow> ts_type option" where
  "declared i k = map_option member_type (find (\<lambda>m. member_name m = k) (members i))"

text \<open>Assignability of an object to an interface: a required member is present with its type,
  an optional one is absent, \<^verbatim>\<open>undefined\<close> or of its type, and every other property has the
  type of the index signature (no other property is allowed without one).\<close>

definition member_ok :: "js_object \<Rightarrow> member \<Rightarrow> bool" where
  "member_ok obj m =
     (case map_of obj (member_name m) of
        None \<Rightarrow> optional m
      | Some v \<Rightarrow> has_type (member_type m) v \<or> (optional m \<and> v = VUndefined))"

definition extra_ok :: "interface \<Rightarrow> string \<times> js_val \<Rightarrow> bool" where
  "extra_ok i kv =
     (case declared i (fst kv) of
        Some t \<Rightarrow> True
      | None \<Rightarrow> (case index_signature i of None \<Rightarrow> False | Some t \<Rightarrow> has_type t (snd kv)))"

definition assignable :: "interface \<Rightarrow> js_object \<Rightarrow> bool" where
  "assignable i obj = (list_all (member_ok obj) (members i) \<and> list_all (extra_ok i) obj)"

section \<open>The page template\<close>

text \<open>
  What a thrown value is to the handlers: an \<^verbatim>\<open>Error\<close> with its message, or something else
  (\<^verbatim>\<open>err instanceof Error ? err.message : "Failed to load data"\<close>). An awaited promise
  settles either way.
\<close>

datatype thrown = Error string | NotAnError

datatype 'a settled = Fulfilled 'a | Rejected thrown

text \<open>The operations a handler performs, in program order: assignments to the refs and calls of
  the host's API.\<close>

datatype effect =
    SetLoading bool
  | SetError "string option"
  | SetItems "js_object list"
  | SetSubmitting bool
  | SetTimeout nat
  | Validate
  | GetItems
  | ShowToast string string
  | ConsoleLog string
  | ConsoleError thrown
  | NavigateTo string
  | NavigateBack

text \<open>
  \<^verbatim>\<open>
  const loading = ref(false);
  const items = ref<Item[]>([]);
  const error = ref<string | null>(null);
  \<close>
\<close>

record page =
  loading :: bool
  items :: "js_object list"
  error :: "string option"
  trace :: "effect list"

definition initial_page :: page where
  "initial_page = \<lparr>loading = False, items = [], error = None, trace = []\<rparr>"

definition emit :: "effect list \<Rightarrow> page \<Rightarrow> page" where
  "emit es p = p\<lparr>trace := trace p @ es\<rparr>"

text \<open>
  \<^verbatim>\<open>
  const loadData = async () => {
    loading.value = true;
    error.value = null;
    try {
      await new Promise(resolve => setTimeout(resolve, 1000));
      items.value = [];
    } catch (err) {
      error.value = err instanceof Error ? err.message : "Failed to load data";
      uni.showToast({ title: error.value, icon: "none" });
    } finally {
      loading.value = false;
    }
  };
  \<close>
  An async function runs up to its \<^verbatim>\<open>await\<close>, is suspended there, and is resumed when the
  promise settles: \<open>loadData_begin\<close> is the part before the suspension (the promise's executor
  has set the timer), \<open>loadData_resume\<close> the part after it, and \<open>loadData\<close> the whole call
  for a given outcome of the awaited promise.
\<close>

definition loadData_begin :: "page \<Rightarrow> page" where
  "loadData_begin p =
     emit [SetLoading True, SetError None, SetTimeout 1000] (p\<lparr>loading := True, error := None\<rparr>)"

definition error_message :: "thrown \<Rightarrow> string" where
  "error_message err = (case err of Error m \<Rightarrow> m | NotAnError \<Rightarrow> ''Failed to load data'')"

definition loadData_resume :: "unit settled \<Rightarrow> page \<Rightarrow> page" where
  "loadData_resume outcome p =
     (let p1 =
        (case outcome of
           Fulfilled u \<Rightarrow> emit [SetItems []] (p\<lparr>items := []\<rparr>)
         | Rejected err \<Rightarrow>
             emit [SetError (Some (error_message err)), ShowToast (error_message err) ''none'']
               (p\<lparr>error := Some (error_message err)\<rparr>))
      in emit [SetLoading False] (p1\<lparr>loading := False\<rparr>))"

definition loadData :: "unit settled \<Rightarrow> page \<Rightarrow> page" where
  "loadData outcome p = loadData_resume outcome (loadData_begin p)"

text \<open>
  \<^verbatim>\<open>
  onLoad((options: any) => {
    console.log("Page loaded with options:", options);
    loadData();
  });
  onMounted(() => { });
  const onRefresh = () => { loadData(); };
  \<close>
  Neither caller awaits \<^verbatim>\<open>loadData()\<close>: the call runs the part before the suspension and
  leaves a timer pending.
\<close>

definition onLoad :: "page \<Rightarrow> page" where
  "onLoad p = loadData_begin (emit [ConsoleLog ''Page loaded with options:''] p)"

definition onRefresh :: "page \<Rightarrow> page" where
  "onRefresh p = loadData_begin p"

text \<open>
  The page as the host runs it. The uni-app runtime calls \<^verbatim>\<open>onLoad\<close> once, when the page is
  created; the template's events are delivered one at a time. The Refresh button is rendered
  inside \<^verbatim>\<open><u-empty v-if="!loading && items.length === 0">\<close>. The view is brought up to date
  with the refs by a later render, not by the assignment itself, so what a click can reach is
  the button of the last rendered view: \<open>button_rendered\<close>. Neither \<^verbatim>\<open>onRefresh\<close> nor
  \<^verbatim>\<open>loadData\<close> looks at \<^verbatim>\<open>loading\<close> before it starts. A timer that fires fulfils its
  promise (the executor never rejects) and resumes one suspended call; \<open>pending\<close> holds the
  timers set and not yet fired. \<^verbatim>\<open>onItemClick\<close> is declared but bound to no element.
  An event the host cannot deliver in a state leaves the state as it is.
\<close>

record runtime =
  page_state :: page
  pending :: "nat list"
  loaded :: bool
  button_rendered :: bool

datatype event = PageLoad | Mounted | Render | ClickRefresh | TimerFired

definition initial_runtime :: runtime where
  "initial_runtime =
     \<lparr>page_state = initial_page, pending = [], loaded = False, button_rendered = False\<rparr>"

definition refresh_visible :: "page \<Rightarrow> bool" where
  "refresh_visible p = (\<not> loading p \<and> length (items p) = 0)"

fun step :: "runtime \<Rightarrow> event \<Rightarrow> runtime" where
  "step r PageLoad =
     (if loaded r then r
      else r\<lparr>page_state := onLoad (page_state r), pending := pending r @ [1000], loaded := True\<rparr>)"
| "step r Mounted = r"
| "step r Render = r\<lparr>button_rendered := refresh_visible (page_state r)\<rparr>"
| "step r ClickRefresh =
     (if button_rendered r
      then r\<lparr>page_state := onRefresh (page_state r), pending := pending r @ [1000]\<rparr>
      else r)"
| "step r TimerFired =
     (case pending r of
        [] \<Rightarrow> r
      | t # ts \<Rightarrow> r\<lparr>page_state := loadData_resume (Fulfilled ()) (page_state r), pending := ts\<rparr>)"

definition run :: "event list \<Rightarrow> runtime" where
  "run es = foldl step initial_runtime es"

text \<open>The operations that start something asynchronous: a timer, a toast, a navigation, a
  request, a validation.\<close>

fun starts_async :: "effect \<Rightarrow> bool" where
  "starts_async (SetTimeout ms) = True"
| "starts_async (ShowToast t i) = True"
| "starts_async (NavigateTo u) = True"
| "starts_async NavigateBack = True"
| "starts_async Validate = True"
| "starts_async GetItems = True"
| "starts_async e = False"

section \<open>The other handlers with a try block\<close>

text \<open>
  The data-fetching pattern of the skill's main document:
  \<^verbatim>\<open>
  const loadData = async () => {
    loading.value = true;
    error.value = null;
    try {
      const data = await api.getItems();
      items.value = data;
    } catch (err) {
      error.value = "Failed to load data";
      uni.showToast({ title: error.value, icon: "none" });
    } finally {
      loading.value = false;
    }
  };
  \<close>
\<close>

definition fetch_loadData :: "js_object list settled \<Rightarrow> page \<Rightarrow> page" where
  "fetch_loadData outcome p =
     (let p0 = emit [SetLoading True, SetError None, GetItems] (p\<lparr>loading := True, error := None\<rparr>);
          p1 =
            (case outcome of
               Fulfilled data \<Rightarrow> emit [SetItems data] (p0\<lparr>items := data\<rparr>)
             | Rejected err \<Rightarrow>
                 emit [SetError (Some ''Failed to load data''),
                       ShowToast ''Failed to load data'' ''none'']
                   (p0\<lparr>error := Some ''Failed to load data''\<rparr>))
      in emit [SetLoading False] (p1\<lparr>loading := False\<rparr>))"

text \<open>
  The list page: a try with a cleanup and no handler, around no awaited call (the call is
  commented out).
  \<^verbatim>\<open>
  const loadData = async () => {
    loading.value = true;
    try {
      items.value = [];
    } finally {
      loading.value = false;
    }
  };
  \<close>
\<close>

definition list_loadData :: "page \<Rightarrow> page" where
  "list_loadData p =
     (let p0 = emit [SetLoading True] (p\<lparr>loading := True\<rparr>);
          p1 = emit [SetItems []] (p0\<lparr>items := []\<rparr>)
      in emit [SetLoading False] (p1\<lparr>loading := False\<rparr>))"

text \<open>
  The form page:
  \<^verbatim>\<open>
  const handleSubmit = async () => {
    try {
      const valid = await formRef.value.validate();
      if (!valid) return;
      submitting.value = true;
      uni.showToast({ title: "Success", icon: "success" });
      setTimeout(() => { uni.navigateBack(); }, 1500);
    } catch (error) {
      console.error(error);
    } finally {
      submitting.value = false;
    }
  };
  \<close>
\<close>

record form_page =
  submitting :: bool
  form_trace :: "effect list"

definition initial_form :: form_page where
  "initial_form = \<lparr>submitting = False, form_trace = []\<rparr>"

definition form_emit :: "effect list \<Rightarrow> form_page \<Rightarrow> form_page" where
  "form_emit es f = f\<lparr>form_trace := form_trace f @ es\<rparr>"

definition handleSubmit :: "bool settled \<Rightarrow> form_page \<Rightarrow> form_page" where
  "handleSubmit outcome f =
     (let f0 = form_emit [Validate] f;
          f1 =
            (case outcome of
               Fulfilled valid \<Rightarrow>
                 if \<not> valid then f0
                 else form_emit [SetSubmitting True, ShowToast ''Success'' ''success'', SetTimeout 1500]
                        (f0\<lparr>submitting := True\<rparr>)
             | Rejected err \<Rightarrow> form_emit [ConsoleError err] f0)
      in form_emit [SetSubmitting False] (f1\<lparr>submitting := False\<rparr>))"

text \<open>The toasts a trace shows, by title.\<close>

fun toasts :: "effect list \<Rightarrow> string list" where
  "toasts [] = []"
| "toasts (ShowToast t i # es) = t # toasts es"
| "toasts (e # es) = toasts es"

section \<open>The theme stores\<close>

text \<open>
  \<^verbatim>\<open>
  interface Theme {
    name: string; primary: string; primaryDark: string; success: string; warning: string;
    error: string; textPrimary: string; textSecondary: string; bgPage: string; bgCard: string;
  }
  \<close>
  (The field \<^verbatim>\<open>error\<close> is \<open>error_color\<close> here: the page's ref has the name already.)
\<close>

record theme =
  name :: string
  primary :: string
  primaryDark :: string
  success :: string
  warning :: string
  error_color :: string
  textPrimary :: string
  textSecondary :: string
  bgPage :: string
  bgCard :: string

record theme_state =
  currentTheme :: string
  themes :: "string \<rightharpoonup> theme"

definition default_theme :: theme where
  "default_theme =
     \<lparr>name = ''Default'', primary = ''#1890ff'', primaryDark = ''#096dd9'',
      success = ''#52c41a'', warning = ''#faad14'', error_color = ''#f5222d'',
      textPrimary = ''#333333'', textSecondary = ''#999999'', bgPage = ''#f5f5f5'',
      bgCard = ''#ffffff''\<rparr>"

definition dark_theme :: theme where
  "dark_theme =
     \<lparr>name = ''Dark'', primary = ''#177ddc'', primaryDark = ''#1765ad'',
      success = ''#49aa19'', warning = ''#d89614'', error_color = ''#d32029'',
      textPrimary = ''#ffffff'', textSecondary = ''#8c8c8c'', bgPage = ''#141414'',
      bgCard = ''#1f1f1f''\<rparr>"

definition initial_theme_state :: theme_state where
  "initial_theme_state =
     \<lparr>currentTheme = ''default'',
      themes = [''default'' \<mapsto> default_theme, ''dark'' \<mapsto> dark_theme]\<rparr>"

text \<open>What the store touches outside itself: the host's key-value storage and the console.
  \<^verbatim>\<open>uni.getStorageSync\<close> answers the empty string for a key that was never set.\<close>

record host =
  storage :: "string \<rightharpoonup> string"
  console_errors :: "string list"

definition initial_host :: host where
  "initial_host = \<lparr>storage = Map.empty, console_errors = []\<rparr>"

definition getStorageSync :: "host \<Rightarrow> string \<Rightarrow> string" where
  "getStorageSync h key = (case storage h key of None \<Rightarrow> [] | Some v \<Rightarrow> v)"

definition setStorageSync :: "string \<Rightarrow> string \<Rightarrow> host \<Rightarrow> host" where
  "setStorageSync key v h = h\<lparr>storage := (storage h)(key \<mapsto> v)\<rparr>"

definition truthy_object :: "theme \<Rightarrow> bool" where
  "truthy_object t = True"

text \<open>
  \<^verbatim>\<open>
  getters: {
    theme: (state) => state.themes[state.currentTheme],
  },
  actions: {
    setTheme(themeName: string) {
      if (!this.themes[themeName]) {
        console.error(`Theme "${themeName}" not found`);
        return;
      }
      this.currentTheme = themeName;
      uni.setStorageSync('theme', themeName);
    },
    loadSavedTheme() {
      const saved = uni.getStorageSync('theme');
      if (saved && this.themes[saved]) {
        this.currentTheme = saved;
      }
    },
  },
  \<close>
\<close>

definition theme_getter :: "theme_state \<Rightarrow> theme property" where
  "theme_getter state = reactive_get (themes state) (currentTheme state)"

definition not_found :: "string \<Rightarrow> string" where
  "not_found themeName = ''Theme '' @ [CHR 0x22] @ themeName @ [CHR 0x22] @ '' not found''"

definition setTheme :: "string \<Rightarrow> theme_state \<times> host \<Rightarrow> theme_state \<times> host" where
  "setTheme themeName sh =
     (let this = fst sh; h = snd sh
      in if \<not> truthy truthy_object (reactive_get (themes this) themeName)
         then (this, h\<lparr>console_errors := console_errors h @ [not_found themeName]\<rparr>)
         else (this\<lparr>currentTheme := themeName\<rparr>, setStorageSync ''theme'' themeName h))"

definition loadSavedTheme :: "theme_state \<times> host \<Rightarrow> theme_state \<times> host" where
  "loadSavedTheme sh =
     (let this = fst sh; h = snd sh; saved = getStorageSync h ''theme''
      in if truthy_string saved \<and> truthy truthy_object (reactive_get (themes this) saved)
         then (this\<lparr>currentTheme := saved\<rparr>, h)
         else (this, h))"

text \<open>
  The shorter store of the skill's main document keeps only the selected name; its getter
  holds the table of colours.
  \<^verbatim>\<open>
  state: () => ({ currentTheme: 'default' }),
  getters: {
    themeColors() {
      const themes = {
        default: { primary: '#1890ff' },
        dark: { primary: '#0050b3' },
      };
      return themes[this.currentTheme];
    },
  },
  \<close>
\<close>

definition themeColors :: "string \<Rightarrow> js_object property" where
  "themeColors current =
     (let themes = [''default'' \<mapsto> [(''primary'', VString ''#1890ff'')],
                    ''dark'' \<mapsto> [(''primary'', VString ''#0050b3'')]]
      in js_get themes current)"

section \<open>The list page's filter\<close>

text \<open>
  \<^verbatim>\<open>
  interface Item { id: number; title: string; status: number; createdAt: string; category: string; }
  \<close>
  (\<^verbatim>\<open>id\<close> is \<open>item_id\<close> here.) A string is a list of code units; the filter does not depend
  on what a code unit is, so their type is left open (\<open>'c\<close>).
\<close>

record 'c list_item =
  item_id :: int
  title :: "'c list"
  status :: int
  createdAt :: "'c list"
  category :: "'c list"

text \<open>\<^verbatim>\<open>s.includes(t)\<close>: \<open>t\<close> occurs in \<open>s\<close> as a contiguous run of code units.\<close>

definition js_includes :: "'c list \<Rightarrow> 'c list \<Rightarrow> bool" where
  "js_includes s t = sublist t s"

text \<open>
  \<^verbatim>\<open>
  const filteredItems = computed(() => {
    let list = items.value;
    if (currentTab.value > 0) {
      list = list.filter((item) => item.status === currentTab.value - 1);
    }
    if (searchText.value) {
      list = list.filter((item) =>
        item.title.toLowerCase().includes(searchText.value.toLowerCase())
      );
    }
    return list;
  });
  \<close>
  \<^verbatim>\<open>String.prototype.toLowerCase\<close> is the language's own function; the filter takes it as
  its first argument, so that what is proved holds of the built-in, whichever letters it
  lowers.
\<close>

definition filteredItems ::
  "('c list \<Rightarrow> 'c list) \<Rightarrow> 'c list \<Rightarrow> int \<Rightarrow> 'c list_item list \<Rightarrow> 'c list_item list" where
  "filteredItems toLowerCase searchText currentTab items0 =
     (let list0 = items0;
          list1 = (if currentTab > 0
                   then filter (\<lambda>item. status item = currentTab - 1) list0 else list0);
          list2 = (if truthy_string searchText
                   then filter (\<lambda>item. js_includes (toLowerCase (title item)) (toLowerCase searchText))
                          list1
                   else list1)
      in list2)"

text \<open>On a string of ASCII characters the built-in lowers the letters A to Z and keeps the
  rest. This is that restriction of it, for running the filter on ASCII titles.\<close>

definition ascii_lower_char :: "char \<Rightarrow> char" where
  "ascii_lower_char c =
     (case map_of (zip ''ABCDEFGHIJKLMNOPQRSTUVWXYZ'' ''abcdefghijklmnopqrstuvwxyz'') c of
        Some l \<Rightarrow> l
      | None \<Rightarrow> c)"

definition ascii_toLowerCase :: "string \<Rightarrow> string" where
  "ascii_toLowerCase s = map ascii_lower_char s"

section \<open>Page registration entries\<close>

datatype json =
    JString string
  | JNumber int
  | JBool bool
  | JNull
  | JArray "json list"
  | JObject "(string \<times> json) list"

text \<open>
  The skill's main document and the quick examples of the library guide each show one
  registration:
  \<^verbatim>\<open>
  { "pages": [ { "path": "pages/newpage/index",
                 "style": { "navigationBarTitleText": "Page Title" } } ] }
  \<close>
\<close>

definition skill_pages_json :: json where
  "skill_pages_json =
     JObject [(''pages'', JArray
       [JObject [(''path'', JString ''pages/newpage/index''),
                 (''style'', JObject [(''navigationBarTitleText'', JString ''Page Title'')])]])]"

definition quick_example_pages_json :: json where
  "quick_example_pages_json =
     JObject [(''pages'', JArray
       [JObject [(''path'', JString ''pages/newpage/index''),
                 (''style'', JObject [(''navigationBarTitleText'', JString ''Page Title'')])]])]"

definition registration_examples :: "json list" where
  "registration_examples = [skill_pages_json, quick_example_pages_json]"

fun field :: "json \<Rightarrow> string \<Rightarrow> json option" where
  "field (JObject kvs) k = map_of kvs k"
| "field j k = None"

fun keys :: "json \<Rightarrow> string list" where
  "keys (JObject kvs) = map fst kvs"
| "keys j = []"

fun page_entries :: "json \<Rightarrow> json list" where
  "page_entries doc = (case field doc ''pages'' of Some (JArray es) \<Rightarrow> es | _ \<Rightarrow> [])"

fun is_string :: "json option \<Rightarrow> bool" where
  "is_string (Some (JString s)) = True"
| "is_string j = False"

text \<open>The shape the specification words: a path string plus a navigation title string (inside
  the entry's style object).\<close>

definition registration_shape :: "json \<Rightarrow> bool" where
  "registration_shape e =
     (is_string (field e ''path'') \<and>
      (case field e ''style'' of
         Some st \<Rightarrow> is_string (field st ''navigationBarTitleText'')
       | None \<Rightarrow> False))"

section \<open>Design tokens\<close>

datatype category = Color | Spacing | Typography | Radius

text \<open>
  The recommended \<^verbatim>\<open>src/styles/theme.scss\<close>, declaration by declaration, each under the
  heading the file gives it (theme colours and neutral colours are colours).
\<close>

definition theme_scss :: "(string \<times> category \<times> string) list" where
  "theme_scss =
     [(''theme-primary'', Color, ''#1890ff''),
      (''theme-success'', Color, ''#52c41a''),
      (''theme-warning'', Color, ''#faad14''),
      (''theme-error'', Color, ''#f5222d''),
      (''color-text-primary'', Color, ''#333333''),
      (''color-text-regular'', Color, ''#666666''),
      (''color-text-secondary'', Color, ''#999999''),
      (''color-bg-page'', Color, ''#f5f5f5''),
      (''color-bg-card'', Color, ''#ffffff''),
      (''spacing-xs'', Spacing, ''8rpx''),
      (''spacing-sm'', Spacing, ''16rpx''),
      (''spacing-md'', Spacing, ''24rpx''),
      (''spacing-lg'', Spacing, ''32rpx''),
      (''spacing-xl'', Spacing, ''48rpx''),
      (''font-size-xs'', Typography, ''20rpx''),
      (''font-size-sm'', Typography, ''24rpx''),
      (''font-size-base'', Typography, ''28rpx''),
      (''font-size-lg'', Typography, ''32rpx''),
      (''font-size-xl'', Typography, ''36rpx''),
      (''border-radius-sm'', Radius, ''4rpx''),
      (''border-radius-md'', Radius, ''8rpx''),
      (''border-radius-lg'', Radius, ''16rpx''),
      (''border-radius-circle'', Radius, ''50%'')]"

definition token_names :: "string list" where
  "token_names = map fst theme_scss"

definition tokens_of :: "category \<Rightarrow> string list" where
  "tokens_of c = map fst (filter (\<lambda>d. fst (snd d) = c) theme_scss)"

text \<open>A style sheet: a declaration's value is a variable or a literal; rules nest.\<close>

datatype scss_value = Var string | Lit string

datatype scss_node = Decl string scss_value | Rule string "scss_node list"

text \<open>The \<^verbatim>\<open><style lang="scss" scoped>\<close> block of the page template.\<close>

definition template_style :: "scss_node list" where
  "template_style =
     [Rule ''.page-container''
        [Decl ''min-height'' (Lit ''100vh''),
         Decl ''background-color'' (Var ''color-bg-page'')],
      Rule ''.page-header''
        [Decl ''background-color'' (Var ''color-bg-card''),
         Decl ''padding'' (Var ''spacing-md''),
         Decl ''margin-bottom'' (Var ''spacing-md''),
         Rule ''.page-title''
           [Decl ''display'' (Lit ''block''),
            Decl ''font-size'' (Var ''font-size-xl''),
            Decl ''font-weight'' (Lit ''bold''),
            Decl ''color'' (Var ''color-text-primary''),
            Decl ''margin-bottom'' (Var ''spacing-xs'')],
         Rule ''.page-subtitle''
           [Decl ''display'' (Lit ''block''),
            Decl ''font-size'' (Var ''font-size-sm''),
            Decl ''color'' (Var ''color-text-secondary'')]],
      Rule ''.page-content''
        [Decl ''padding'' (Var ''spacing-md'')],
      Rule ''.loading-container''
        [Decl ''display'' (Lit ''flex''),
         Decl ''justify-content'' (Lit ''center''),
         Decl ''align-items'' (Lit ''center''),
         Decl ''padding'' (Var ''spacing-xl'')]]"

fun referenced :: "scss_node \<Rightarrow> string list" where
  "referenced (Decl p (Var v)) = [v]"
| "referenced (Decl p (Lit l)) = []"
| "referenced (Rule sel body) = concat (map referenced body)"

definition template_variables :: "string list" where
  "template_variables = concat (map referenced template_style)"

section \<open>Auxiliary definitions for the proofs\<close>

text \<open>Counting an operation in a trace.\<close>

definition occurrences :: "effect \<Rightarrow> effect list \<Rightarrow> nat" where
  "occurrences e es = length (filter (\<lambda>x. x = e) es)"

text \<open>What every state of the running page satisfies: the only asynchronous operation ever
  started is the delay of one second, each call of \<^verbatim>\<open>loadData\<close> has started one, and each
  delay is either pending or has resumed its call, which then cleared the flag.\<close>

definition page_invariant :: "runtime \<Rightarrow> bool" where
  "page_invariant r =
     (set (filter starts_async (trace (page_state r))) \<subseteq> {SetTimeout 1000} \<and>
      occurrences (SetLoading True) (trace (page_state r)) =
        occurrences (SetTimeout 1000) (trace (page_state r)) \<and>
      occurrences (SetTimeout 1000) (trace (page_state r)) =
        length (pending r) + occurrences (SetLoading False) (trace (page_state r)) \<and>
      set (pending r) \<subseteq> {1000})"

text \<open>Two items with ASCII titles for trying the filter.\<close>

definition parcel :: "char list_item" where
  "parcel =
     \<lparr>item_id = 1, title = ''Blue Parcel'', status = 0, createdAt = ''2024-01-01'',
      category = ''box''\<rparr>"

definition letter :: "char list_item" where
  "letter =
     \<lparr>item_id = 2, title = ''Red letter'', status = 1, createdAt = ''2024-01-02'',
      category = ''mail''\<rparr>"

section \<open>Numeric keys\<close>

lemma number_key_examples:
  "number_key (Finite False 0 D1 1) = ''1''"
  "number_key (Finite True 0 D1 1) = ''-1''"
  "number_key (Finite False 0 D2 2) = ''20''"
  "number_key (Finite False 1 D5 1) = ''1.5''"
  "number_key (Finite False 0 D5 0) = ''0.5''"
  "number_key (Finite False 12 D3 (- 2)) = ''0.00123''"
  "number_key (Finite False 0 D1 21) = ''100000000000000000000''"
  "number_key (Finite False 0 D1 22) = ''1e+21''"
  "number_key (Finite False 12 D3 25) = ''1.23e+24''"
  "number_key (Finite False 0 D1 (- 6)) = ''1e-7''"
  by code_simp+

lemma digit_char_in: "d < 10 \<Longrightarrow> digit_char d \<in> set ''0123456789''"
  unfolding digit_char_def by (rule nth_mem) simp

lemma digits_nonempty: "digits n \<noteq> []"
  by (subst digits.simps) simp

lemma hd_digits: "hd (digits n) \<in> set ''0123456789''"
proof (induction n rule: digits.induct)
  case (1 n)
  show ?case
  proof (cases "n < 10")
    case True
    then show ?thesis
      using digit_char_in [of n] by (subst digits.simps) simp
  next
    case False
    then have "hd (digits n) = hd (digits (n div 10))"
      by (subst digits.simps) (simp add: digits_nonempty)
    with 1 False show ?thesis by simp
  qed
qed

lemma length_digits_one: "length (digits n) = 1 \<longleftrightarrow> n < 10"
proof (cases "n < 10")
  case True
  then show ?thesis by (subst digits.simps) simp
next
  case False
  have "digits (n div 10) \<noteq> []" by (rule digits_nonempty)
  then have "length (digits (n div 10)) \<noteq> 0" by simp
  with False show ?thesis by (subst digits.simps) simp
qed

lemma digit_char_inj: "a < 10 \<Longrightarrow> b < 10 \<Longrightarrow> digit_char a = digit_char b \<Longrightarrow> a = b"
proof -
  assume "a < 10" "b < 10" "digit_char a = digit_char b"
  moreover have "distinct ''0123456789''" by simp
  ultimately show "a = b"
    unfolding digit_char_def by (simp add: nth_eq_iff_index_eq)
qed

lemma digits_single: "digits n = [digit_char d] \<Longrightarrow> d < 10 \<Longrightarrow> n = d"
proof -
  assume eq: "digits n = [digit_char d]" and d: "d < 10"
  from eq have "length (digits n) = 1" by simp
  then have n: "n < 10" using length_digits_one [of n] by simp
  then have "digits n = [digit_char n]" by (subst digits.simps) simp
  with eq have "digit_char n = digit_char d" by simp
  with n d show "n = d" by (rule digit_char_inj)
qed

lemma finite_key_single: "finite_key s n = [c] \<Longrightarrow> digits s = [c] \<and> n = 1"
proof -
  assume a: "finite_key s n = [c]"
  have ne: "digits s \<noteq> []" by (rule digits_nonempty)
  then have l: "1 \<le> length (digits s)" by (cases "digits s") simp_all
  have len: "length (finite_key s n) = 1" using a by simp
  show ?thesis
  proof (cases "int (length (digits s)) \<le> n \<and> n \<le> 21")
    case True
    then have k: "finite_key s n = digits s @ replicate (nat (n - int (length (digits s)))) (CHR ''0'')"
      by (simp add: finite_key_def Let_def)
    with len l have "length (digits s) = 1" "nat (n - int (length (digits s))) = 0" by simp_all
    with k a True show ?thesis by simp
  next
    case False
    then have "2 \<le> length (finite_key s n)"
      using l by (auto simp: finite_key_def Let_def min_def)
    with len show ?thesis by simp
  qed
qed

lemma finite_key_hd: "hd (finite_key s n) \<in> set ''0123456789''"
proof -
  have ne: "digits s \<noteq> []" by (rule digits_nonempty)
  have t: "0 < m \<Longrightarrow> hd (take m (digits s)) = hd (digits s)" for m
    using ne by (cases "digits s"; cases m) simp_all
  show ?thesis
    using hd_digits [of s] ne
    by (auto simp: finite_key_def Let_def t hd_append)
qed

lemma number_key_hd: "hd (number_key x) \<in> set ''-0123456789NI''"
  using finite_key_hd by (cases x) auto

lemma number_key_not_inherited: "number_key x \<notin> set Object_prototype_keys"
proof
  assume "number_key x \<in> set Object_prototype_keys"
  then have "hd (number_key x) \<in> set ''chiptv_''"
    unfolding Object_prototype_keys_def by auto
  with number_key_hd [of x] show False by auto
qed

lemma number_key_0: "number_key x = ''0'' \<longleftrightarrow> is_zero x"
proof (cases x)
  case (Finite neg q d n)
  have "finite_key (10 * q + last_digit_value d) n \<noteq> ''0''"
  proof
    assume "finite_key (10 * q + last_digit_value d) n = ''0''"
    then have "digits (10 * q + last_digit_value d) = [digit_char 0]"
      using finite_key_single by (simp add: digit_char_def)
    then have "10 * q + last_digit_value d = 0" by (rule digits_single) simp
    then show False by (cases d) simp_all
  qed
  with Finite show ?thesis by auto
qed auto

lemma number_key_1: "number_key x = ''1'' \<longleftrightarrow> x = one"
proof (cases x)
  case (Finite neg q d n)
  show ?thesis
  proof
    assume k: "number_key x = ''1''"
    with Finite have neg: "\<not> neg" by auto
    with k Finite have f: "finite_key (10 * q + last_digit_value d) n = ''1''" by simp
    then have "digits (10 * q + last_digit_value d) = [digit_char 1]" and n: "n = 1"
      using finite_key_single [of "10 * q + last_digit_value d" n "CHR ''1''"]
      by (simp_all add: digit_char_def)
    then have "10 * q + last_digit_value d = 1" using digits_single by simp
    then have "q = 0 \<and> d = D1" by (cases d) simp_all
    with neg n Finite show "x = one" by (simp add: one_def)
  next
    assume "x = one"
    then show "number_key x = ''1''"
      by (simp add: one_def finite_key_def digits.simps digit_char_def)
  qed
qed (auto simp: one_def)

lemma status_lookup:
  "js_or (js_get [''0'' \<mapsto> a, ''1'' \<mapsto> b] (number_key x)) d =
     (if is_zero x then js_or (Own a) d else if x = one then js_or (Own b) d else Own d)"
  using number_key_not_inherited [of x] number_key_0 [of x] number_key_1 [of x]
  by (auto simp: js_get_def js_or_def)

section \<open>Status labels are total\<close>

text \<open>
  C10. \<^verbatim>\<open>getStatusText\<close> and \<^verbatim>\<open>getStatusType\<close>, in the list page and in the detail page,
  answer for every number, NaN, the infinities and fractions included: a zero gives "Pending"
  and "warning", 1 gives "Completed" and "success", and every other number gives the
  fallbacks "Unknown" and "default"; the result is never \<^verbatim>\<open>undefined\<close> and never a member
  inherited from the prototype.
\<close>

theorem status_labels_total:
  "getStatusText code =
     (if is_zero code then Own ''Pending'' else if code = one then Own ''Completed''
      else Own ''Unknown'')
   \<and> getStatusType code =
     (if is_zero code then Own ''warning'' else if code = one then Own ''success''
      else Own ''default'')
   \<and> detail_getStatusText code = getStatusText code
   \<and> detail_getStatusType code = getStatusType code"
  unfolding getStatusText_def getStatusType_def detail_getStatusText_def
    detail_getStatusType_def Let_def status_lookup
  by (simp add: js_or_def truthy_string_def)

section \<open>The page template's loadData\<close>

text \<open>
  C1. Every call of the page template's \<^verbatim>\<open>loadData\<close> follows the page-loading pattern: it
  sets the loading flag (the flag is set while the call is suspended), awaits the placeholder
  delay of one second, then populates the items list, and clears the loading flag last; on the
  error path the handler's two operations take the place of the list assignment. The flag is
  false when the call completes, whichever way the awaited promise settles.
\<close>

theorem loadData_pattern:
  "loading (loadData_begin p) = True
   \<and> trace (loadData outcome p) =
       trace p @ [SetLoading True, SetError None, SetTimeout 1000] @
       (case outcome of
          Fulfilled u \<Rightarrow> [SetItems []]
        | Rejected err \<Rightarrow>
            [SetError (Some (error_message err)), ShowToast (error_message err) ''none'']) @
       [SetLoading False]
   \<and> items (loadData (Fulfilled ()) p) = []
   \<and> loading (loadData outcome p) = False"
  by (simp add: loadData_def loadData_begin_def loadData_resume_def emit_def Let_def
      split: settled.splits)

section \<open>Error handling in the handlers\<close>

text \<open>
  C2 (as amended). The page template's \<^verbatim>\<open>loadData\<close> and the data-fetching pattern catch the
  error of the awaited call, show it in a toast and clear the loading flag in the cleanup
  step. The form page's \<^verbatim>\<open>handleSubmit\<close> catches the error of the awaited validation and
  writes it to the console, showing no toast, and clears the submitting flag in the cleanup
  step. The list page's \<^verbatim>\<open>loadData\<close> has a cleanup step and no handler, around no awaited
  call, and clears the loading flag.
\<close>

theorem error_handling_patterns:
  "trace (loadData (Rejected err) p) =
     trace p @ [SetLoading True, SetError None, SetTimeout 1000,
       SetError (Some (error_message err)), ShowToast (error_message err) ''none'',
       SetLoading False]
   \<and> loading (loadData (Rejected err) p) = False
   \<and> trace (fetch_loadData (Rejected err) p) =
     trace p @ [SetLoading True, SetError None, GetItems,
       SetError (Some ''Failed to load data''), ShowToast ''Failed to load data'' ''none'',
       SetLoading False]
   \<and> loading (fetch_loadData (Rejected err) p) = False
   \<and> form_trace (handleSubmit (Rejected err) f) =
     form_trace f @ [Validate, ConsoleError err, SetSubmitting False]
   \<and> toasts (form_trace (handleSubmit (Rejected err) f)) = toasts (form_trace f)
   \<and> submitting (handleSubmit (Rejected err) f) = False
   \<and> trace (list_loadData p) = trace p @ [SetLoading True, SetItems [], SetLoading False]
   \<and> loading (list_loadData p) = False"
proof -
  have t: "toasts (xs @ [Validate, ConsoleError err, SetSubmitting False]) = toasts xs" for xs
    by (induction xs rule: toasts.induct) simp_all
  have "form_trace (handleSubmit (Rejected err) f) =
      form_trace f @ [Validate, ConsoleError err, SetSubmitting False]"
    by (simp add: handleSubmit_def form_emit_def Let_def)
  then show ?thesis
    by (simp add: t loadData_def loadData_begin_def loadData_resume_def emit_def Let_def
        fetch_loadData_def handleSubmit_def form_emit_def list_loadData_def)
qed

text \<open>The claim as it was stated fails on the form page: a rejected validation is logged and no
  toast is shown.\<close>

theorem handleSubmit_shows_no_toast:
  "toasts (form_trace (handleSubmit (Rejected (Error ''Please enter title'')) initial_form)) = []
   \<and> form_trace (handleSubmit (Rejected (Error ''Please enter title'')) initial_form) =
       [Validate, ConsoleError (Error ''Please enter title''), SetSubmitting False]"
  by (simp add: handleSubmit_def form_emit_def initial_form_def Let_def)

section \<open>The theme store\<close>

lemma reactive_get_own:
  "themes s n = Some t \<Longrightarrow> n \<notin> set reactive_keys \<Longrightarrow> reactive_get (themes s) n = Own t"
  by (simp add: reactive_get_def reactive_keys_def js_get_def)

lemma reactive_get_undefined:
  "themes s n = None \<Longrightarrow> n \<notin> set Object_prototype_keys \<Longrightarrow> n \<notin> set reactive_keys \<Longrightarrow>
   reactive_get (themes s) n = Undefined"
  by (simp add: reactive_get_def reactive_keys_def js_get_def)

text \<open>
  C3 (as amended). The getter of the theme store yields the entry of the themes record keyed by
  \<^verbatim>\<open>currentTheme\<close>, a record of colour values. \<^verbatim>\<open>setTheme\<close>, called with a name that is a
  key of the themes record (and none of the reactive proxy's own keys), sets
  \<^verbatim>\<open>currentTheme\<close> to that name and persists the name under the storage key "theme", after
  which the getter yields that name's entry. Called with a name that is no key of the record,
  no member of \<^verbatim>\<open>Object.prototype\<close> and none of the proxy's keys, such as "blue", it logs
  the error \<^verbatim>\<open>Theme "<name>" not found\<close> and changes neither the store nor the storage.
  The shorter store's getter maps each of its two theme names to its record of colours.
\<close>

theorem theme_store_behaviour:
  "(themes s (currentTheme s) = Some t \<and> currentTheme s \<notin> set reactive_keys \<longrightarrow>
        theme_getter s = Own t)
   \<and> (themes s n = Some t \<and> n \<notin> set reactive_keys \<longrightarrow>
        currentTheme (fst (setTheme n (s, h))) = n
      \<and> storage (snd (setTheme n (s, h))) ''theme'' = Some n
      \<and> theme_getter (fst (setTheme n (s, h))) = Own t)
   \<and> (themes s n = None \<and> n \<notin> set Object_prototype_keys \<and> n \<notin> set reactive_keys \<longrightarrow>
        fst (setTheme n (s, h)) = s
      \<and> storage (snd (setTheme n (s, h))) = storage h
      \<and> console_errors (snd (setTheme n (s, h))) = console_errors h @ [not_found n])
   \<and> themeColors ''default'' = Own [(''primary'', VString ''#1890ff'')]
   \<and> themeColors ''dark'' = Own [(''primary'', VString ''#0050b3'')]"
proof -
  have a: "themes s (currentTheme s) = Some t \<and> currentTheme s \<notin> set reactive_keys \<longrightarrow>
        theme_getter s = Own t"
    by (simp add: theme_getter_def reactive_get_own)
  have b: "themes s n = Some t \<and> n \<notin> set reactive_keys \<longrightarrow>
        currentTheme (fst (setTheme n (s, h))) = n
      \<and> storage (snd (setTheme n (s, h))) ''theme'' = Some n
      \<and> theme_getter (fst (setTheme n (s, h))) = Own t"
    by (simp add: setTheme_def theme_getter_def reactive_get_own truthy_object_def
        setStorageSync_def Let_def)
  have c: "themes s n = None \<and> n \<notin> set Object_prototype_keys \<and> n \<notin> set reactive_keys \<longrightarrow>
        fst (setTheme n (s, h)) = s
      \<and> storage (snd (setTheme n (s, h))) = storage h
      \<and> console_errors (snd (setTheme n (s, h))) = console_errors h @ [not_found n]"
    by (simp add: setTheme_def reactive_get_undefined Let_def)
  have d: "themeColors ''default'' = Own [(''primary'', VString ''#1890ff'')]"
      "themeColors ''dark'' = Own [(''primary'', VString ''#0050b3'')]"
    by (simp_all add: themeColors_def js_get_def)
  from a b c d show ?thesis by blast
qed

theorem theme_store_behaviour_witness:
  "themes initial_theme_state (currentTheme initial_theme_state) = Some default_theme
   \<and> currentTheme initial_theme_state \<notin> set reactive_keys
   \<and> theme_getter initial_theme_state = Own default_theme
   \<and> themes initial_theme_state ''dark'' = Some dark_theme
   \<and> ''dark'' \<notin> set reactive_keys
   \<and> currentTheme (fst (setTheme ''dark'' (initial_theme_state, initial_host))) = ''dark''
   \<and> storage (snd (setTheme ''dark'' (initial_theme_state, initial_host))) ''theme'' = Some ''dark''
   \<and> theme_getter (fst (setTheme ''dark'' (initial_theme_state, initial_host))) = Own dark_theme
   \<and> themes initial_theme_state ''blue'' = None
   \<and> ''blue'' \<notin> set Object_prototype_keys
   \<and> ''blue'' \<notin> set reactive_keys
   \<and> fst (setTheme ''blue'' (initial_theme_state, initial_host)) = initial_theme_state
   \<and> storage (snd (setTheme ''blue'' (initial_theme_state, initial_host))) = storage initial_host
   \<and> console_errors (snd (setTheme ''blue'' (initial_theme_state, initial_host))) =
       console_errors initial_host @ [not_found ''blue'']"
proof -
  have a: "themes initial_theme_state ''dark'' = Some dark_theme" "''dark'' \<notin> set reactive_keys"
    by (simp_all add: initial_theme_state_def reactive_keys_def)
  have b: "themes initial_theme_state (currentTheme initial_theme_state) = Some default_theme"
    "currentTheme initial_theme_state \<notin> set reactive_keys"
    by (simp_all add: initial_theme_state_def reactive_keys_def)
  have c: "themes initial_theme_state ''blue'' = None" "''blue'' \<notin> set Object_prototype_keys"
    "''blue'' \<notin> set reactive_keys"
    by (simp_all add: initial_theme_state_def Object_prototype_keys_def reactive_keys_def)
  from a b c show ?thesis
    using theme_store_behaviour [of initial_theme_state default_theme "''blue''" initial_host]
      theme_store_behaviour [of initial_theme_state dark_theme "''dark''" initial_host]
    by simp
qed

text \<open>The claim as it was stated fails for a name the store does not know: nothing is updated
  and nothing is persisted.\<close>

theorem setTheme_unknown_name:
  "currentTheme (fst (setTheme ''blue'' (initial_theme_state, initial_host))) = ''default''
   \<and> storage (snd (setTheme ''blue'' (initial_theme_state, initial_host))) ''theme'' = None
   \<and> console_errors (snd (setTheme ''blue'' (initial_theme_state, initial_host))) =
       [''Theme '' @ [CHR 0x22] @ ''blue'' @ [CHR 0x22] @ '' not found'']"
  by (simp add: setTheme_def reactive_get_def js_get_def Object_prototype_keys_def initial_theme_state_def
      initial_host_def Let_def not_found_def)

text \<open>
  C8. The store is meant to keep \<^verbatim>\<open>currentTheme\<close> a key of the themes record. The guards of
  \<^verbatim>\<open>setTheme\<close> and \<^verbatim>\<open>loadSavedTheme\<close> test \<^verbatim>\<open>this.themes[name]\<close> for truthiness, and a
  name of a member of \<^verbatim>\<open>Object.prototype\<close> passes them although it is no key of the record:
  \<^verbatim>\<open>setTheme("constructor")\<close> on the initial store selects and persists "constructor", the
  getter then yields the inherited member and no theme, and \<^verbatim>\<open>loadSavedTheme\<close> adopts a
  saved "toString".
\<close>

theorem setTheme_inherited_name:
  "themes initial_theme_state ''constructor'' = None
   \<and> currentTheme (fst (setTheme ''constructor'' (initial_theme_state, initial_host))) =
       ''constructor''
   \<and> storage (snd (setTheme ''constructor'' (initial_theme_state, initial_host))) ''theme'' =
       Some ''constructor''
   \<and> theme_getter (fst (setTheme ''constructor'' (initial_theme_state, initial_host))) =
       Inherited ''constructor''
   \<and> themes initial_theme_state ''toString'' = None
   \<and> currentTheme
        (fst (loadSavedTheme
               (initial_theme_state, setStorageSync ''theme'' ''toString'' initial_host))) =
       ''toString''"
  by (simp add: setTheme_def loadSavedTheme_def reactive_get_def js_get_def Object_prototype_keys_def
      initial_theme_state_def initial_host_def Let_def truthy_object_def truthy_string_def
      setStorageSync_def getStorageSync_def theme_getter_def)

text \<open>The truthy keys of the reactive proxy pass the guard in the same way. What the guards do
  keep: a selected name is a key of the record, a member of the prototype or a key of the
  proxy.\<close>

lemma setTheme_reactive_key:
  "currentTheme (fst (setTheme ''__v_raw'' (initial_theme_state, initial_host))) = ''__v_raw''
   \<and> theme_getter (fst (setTheme ''__v_raw'' (initial_theme_state, initial_host))) = Raw_target
   \<and> currentTheme (fst (setTheme ''__v_isReactive'' (initial_theme_state, initial_host))) =
       ''__v_isReactive''
   \<and> currentTheme (fst (setTheme ''__v_isReadonly'' (initial_theme_state, initial_host))) =
       ''default''"
  by (simp add: setTheme_def reactive_get_def theme_getter_def initial_theme_state_def Let_def)

lemma setTheme_keeps_known:
  "currentTheme s \<in> dom (themes s) \<union> set Object_prototype_keys \<union> set reactive_keys \<Longrightarrow>
   currentTheme (fst (setTheme n (s, h))) \<in>
     dom (themes (fst (setTheme n (s, h)))) \<union> set Object_prototype_keys \<union> set reactive_keys"
  by (auto simp: setTheme_def reactive_get_def reactive_keys_def js_get_def truthy_object_def Let_def
      split: option.splits if_splits)

lemma loadSavedTheme_keeps_known:
  "currentTheme s \<in> dom (themes s) \<union> set Object_prototype_keys \<union> set reactive_keys \<Longrightarrow>
   currentTheme (fst (loadSavedTheme (s, h))) \<in>
     dom (themes (fst (loadSavedTheme (s, h)))) \<union> set Object_prototype_keys \<union> set reactive_keys"
  by (auto simp: loadSavedTheme_def reactive_get_def reactive_keys_def js_get_def truthy_object_def Let_def
      split: option.splits if_splits)

section \<open>The page template's asynchronous behaviour\<close>

lemma page_invariant_initial: "page_invariant initial_runtime"
  by (simp add: page_invariant_def initial_runtime_def initial_page_def occurrences_def)

lemma page_invariant_step: "page_invariant r \<Longrightarrow> page_invariant (step r e)"
  by (cases e)
    (auto simp: page_invariant_def occurrences_def onLoad_def onRefresh_def loadData_begin_def
      loadData_resume_def emit_def Let_def split: list.splits)

lemma run_snoc: "run (es @ [e]) = step (run es) e"
  by (simp add: run_def)

lemma page_invariant_run: "page_invariant (run es)"
proof (induction es rule: rev_induct)
  case Nil
  show ?case by (simp add: run_def page_invariant_initial)
next
  case (snoc e es)
  then show ?case by (simp add: run_snoc page_invariant_step)
qed

lemma all_same: "set xs \<subseteq> {a} \<Longrightarrow> xs = replicate (length xs) a"
  by (induction xs) auto

lemma run_example:
  "run [PageLoad, Render, ClickRefresh, TimerFired, Mounted, Render, ClickRefresh] =
     \<lparr>page_state =
        \<lparr>loading = True, items = [], error = None,
         trace = [ConsoleLog ''Page loaded with options:'',
                  SetLoading True, SetError None, SetTimeout 1000, SetItems [], SetLoading False,
                  SetLoading True, SetError None, SetTimeout 1000]\<rparr>,
      pending = [1000], loaded = True, button_rendered = True\<rparr>"
  by (simp add: run_def initial_runtime_def initial_page_def onLoad_def onRefresh_def
      loadData_begin_def loadData_resume_def emit_def refresh_visible_def)

text \<open>
  C4 (as amended). In every execution of the page template, whatever events the host
  delivers, the only asynchronous operations the page starts are simulated network delays of
  one second, exactly one for each call of \<^verbatim>\<open>loadData\<close>; each delay is either still pending
  or has resumed its call, which then cleared the loading flag; and a call awaits its delay
  before it populates the list and clears the flag. Calls of \<^verbatim>\<open>loadData\<close> are not guarded
  against one another, so the delays of two calls can be pending together.
\<close>

theorem delays_only:
  "filter starts_async (trace (page_state (run es))) =
       replicate (occurrences (SetLoading True) (trace (page_state (run es)))) (SetTimeout 1000)
   \<and> occurrences (SetLoading True) (trace (page_state (run es))) =
       length (pending (run es)) + occurrences (SetLoading False) (trace (page_state (run es)))
   \<and> filter starts_async (trace (loadData (Fulfilled ()) p)) =
       filter starts_async (trace p) @ [SetTimeout 1000]
   \<and> trace (loadData (Fulfilled ()) p) =
       trace p @ [SetLoading True, SetError None, SetTimeout 1000, SetItems [], SetLoading False]"
proof -
  let ?t = "trace (page_state (run es))"
  have i: "page_invariant (run es)" by (rule page_invariant_run)
  then have sub: "set (filter starts_async ?t) \<subseteq> {SetTimeout 1000}"
    by (simp add: page_invariant_def)
  then have "filter starts_async ?t = replicate (length (filter starts_async ?t)) (SetTimeout 1000)"
    by (rule all_same)
  moreover have "length (filter starts_async ?t) = occurrences (SetTimeout 1000) ?t"
  proof -
    from sub have "filter starts_async ?t = filter (\<lambda>x. x = SetTimeout 1000) ?t"
      by (intro filter_cong) auto
    then show ?thesis by (simp add: occurrences_def)
  qed
  moreover have "filter starts_async (trace (loadData (Fulfilled ()) p)) =
      filter starts_async (trace p) @ [SetTimeout 1000]"
    by (simp add: loadData_def loadData_begin_def loadData_resume_def emit_def Let_def)
  moreover have "trace (loadData (Fulfilled ()) p) =
       trace p @ [SetLoading True, SetError None, SetTimeout 1000, SetItems [], SetLoading False]"
    by (simp add: loadData_def loadData_begin_def loadData_resume_def emit_def Let_def)
  ultimately show ?thesis using i by (simp add: page_invariant_def)
qed

text \<open>The claim as it was stated fails when Refresh is clicked twice in the same rendered view:
  two delays are pending together, and when the first one fires the loading flag is cleared
  while the second is still pending.\<close>

theorem two_refreshes_overlap:
  "pending (run [PageLoad, TimerFired, Render, ClickRefresh, ClickRefresh]) = [1000, 1000]
   \<and> pending (run [PageLoad, TimerFired, Render, ClickRefresh, ClickRefresh, TimerFired]) =
       [1000]
   \<and> loading
        (page_state (run [PageLoad, TimerFired, Render, ClickRefresh, ClickRefresh, TimerFired])) =
       False"
  by (simp add: run_def initial_runtime_def initial_page_def onLoad_def onRefresh_def
      loadData_begin_def loadData_resume_def emit_def refresh_visible_def)

section \<open>The placeholder item shape\<close>

lemma extra_ok_Item: "list_all (extra_ok Item) obj"
  by (simp add: list_all_iff extra_ok_def Item_def split: option.splits)

lemma has_type_TNumber: "has_type TNumber v = (\<exists>n. v = VNumber n)"
  by (cases v) simp_all

lemma has_type_TString: "has_type TString v = (\<exists>s. v = VString s)"
  by (cases v) simp_all

text \<open>
  C5. The \<^verbatim>\<open>Item\<close> interface of the template declares a required numeric \<^verbatim>\<open>id\<close>, a required
  string \<^verbatim>\<open>title\<close> and an optional \<^verbatim>\<open>description\<close>, and no other required member: an object
  is an \<^verbatim>\<open>Item\<close> exactly when its \<^verbatim>\<open>id\<close> is a number, its \<^verbatim>\<open>title\<close> is a string and its
  \<^verbatim>\<open>description\<close> is absent, undefined or a string, whatever else it holds.
\<close>

theorem Item_shape:
  "map member_name (required_members Item) = [''id'', ''title'']
   \<and> map member_name (filter optional (members Item)) = [''description'']
   \<and> declared Item ''id'' = Some TNumber
   \<and> declared Item ''title'' = Some TString
   \<and> declared Item ''description'' = Some TString
   \<and> assignable Item obj =
       ((\<exists>n. map_of obj ''id'' = Some (VNumber n))
        \<and> (\<exists>s. map_of obj ''title'' = Some (VString s))
        \<and> (case map_of obj ''description'' of
              None \<Rightarrow> True
            | Some v \<Rightarrow> (\<exists>s. v = VString s) \<or> v = VUndefined))"
proof -
  have "assignable Item obj =
      ((\<exists>n. map_of obj ''id'' = Some (VNumber n))
       \<and> (\<exists>s. map_of obj ''title'' = Some (VString s))
       \<and> (case map_of obj ''description'' of
             None \<Rightarrow> True
           | Some v \<Rightarrow> (\<exists>s. v = VString s) \<or> v = VUndefined))"
    unfolding assignable_def using extra_ok_Item [of obj]
    by (auto simp: Item_def member_ok_def has_type_TNumber has_type_TString
        split: option.splits)
  then show ?thesis
    by (simp add: required_members_def declared_def Item_def)
qed

section \<open>Page registration entries\<close>

text \<open>
  C6. Every page-registration example of the skill's documents is an object with a "path"
  string and a "style" object whose "navigationBarTitleText" is a string, and has no other
  key.
\<close>

theorem registration_entries_shape:
  "list_all registration_shape (concat (map page_entries registration_examples))
   \<and> map keys (concat (map page_entries registration_examples)) =
       [[''path'', ''style''], [''path'', ''style'']]
   \<and> map (\<lambda>e. map_option keys (field e ''style''))
        (concat (map page_entries registration_examples)) =
       [Some [''navigationBarTitleText''], Some [''navigationBarTitleText'']]"
  by (simp add: registration_examples_def skill_pages_json_def quick_example_pages_json_def
      registration_shape_def)

section \<open>Design tokens\<close>

text \<open>
  C7. The token names of the recommended \<^verbatim>\<open>theme.scss\<close> are a fixed set of distinct names in
  the four categories colour, spacing, typography and radius, and every variable the page
  template's style block refers to is one of them.
\<close>

theorem template_tokens_defined:
  "set template_variables \<subseteq> set token_names
   \<and> tokens_of Color =
       [''theme-primary'', ''theme-success'', ''theme-warning'', ''theme-error'',
        ''color-text-primary'', ''color-text-regular'', ''color-text-secondary'',
        ''color-bg-page'', ''color-bg-card'']
   \<and> tokens_of Spacing =
       [''spacing-xs'', ''spacing-sm'', ''spacing-md'', ''spacing-lg'', ''spacing-xl'']
   \<and> tokens_of Typography =
       [''font-size-xs'', ''font-size-sm'', ''font-size-base'', ''font-size-lg'', ''font-size-xl'']
   \<and> tokens_of Radius =
       [''border-radius-sm'', ''border-radius-md'', ''border-radius-lg'',
        ''border-radius-circle'']
   \<and> token_names = tokens_of Color @ tokens_of Spacing @ tokens_of Typography @ tokens_of Radius
   \<and> distinct token_names"
  by (simp add: template_variables_def template_style_def token_names_def tokens_of_def
      theme_scss_def)

section \<open>The list page's filter\<close>

lemma filteredItems_example:
  "filteredItems ascii_toLowerCase ''PARC'' 1 [parcel, letter] = [parcel]"
  by (simp add: filteredItems_def truthy_string_def Let_def parcel_def letter_def
      ascii_toLowerCase_def ascii_lower_char_def js_includes_def sublist_code)

text \<open>
  C9. \<^verbatim>\<open>filteredItems\<close> is an order-preserving subsequence of \<^verbatim>\<open>items\<close>; each of its
  elements satisfies the active filters (its status is \<^verbatim>\<open>currentTab - 1\<close> when
  \<^verbatim>\<open>currentTab > 0\<close>, and its title contains the search text, both in lower case, when the
  search text is not empty); and with \<^verbatim>\<open>currentTab = 0\<close> and an empty search text it is
  \<^verbatim>\<open>items\<close>. This holds whatever \<^verbatim>\<open>toLowerCase\<close> does to a string.
\<close>

theorem filteredItems_sound:
  "subseq (filteredItems toLowerCase searchText currentTab its) its
   \<and> (\<forall>x \<in> set (filteredItems toLowerCase searchText currentTab its).
         (currentTab > 0 \<longrightarrow> status x = currentTab - 1)
       \<and> (searchText \<noteq> [] \<longrightarrow>
            js_includes (toLowerCase (title x)) (toLowerCase searchText)))
   \<and> filteredItems toLowerCase [] 0 its = its"
  by (auto simp: filteredItems_def truthy_string_def Let_def
      intro: subseq_order.trans [OF subseq_filter_left subseq_filter_left])

theorem filteredItems_sound_witness:
  "(1::int) > 0 \<and> ''PARC'' \<noteq> []
   \<and> filteredItems ascii_toLowerCase ''PARC'' 1 [parcel, letter] = [parcel]
   \<and> subseq [parcel] [parcel, letter]
   \<and> status parcel = 1 - 1
   \<and> js_includes (ascii_toLowerCase (title parcel)) (ascii_toLowerCase ''PARC'')"
  using filteredItems_sound [of ascii_toLowerCase "''PARC''" 1 "[parcel, letter]"]
  by (simp add: filteredItems_example)

end
